theory Spec2Isabelle
  imports Main
begin

section \<open>JavaScript values and objects\<close>

text \<open>
  The step builders of \<^verbatim>\<open>WorkflowSteps\<close> shape plain JavaScript objects: they read
  properties with \<^verbatim>\<open>?.\<close>, substitute defaults with \<^verbatim>\<open>??\<close>, spread objects into
  object literals and hand the result on. The embedding keeps that level: a value is a
  \<open>jsvalue\<close>, an object is the list of its own properties in insertion order. Numbers
  are only passed through by the code (fetch depth, retention days, compression level,
  timeout minutes), so they are integers here.
\<close>

datatype jsvalue =
    JUndefined
  | JNull
  | JBool bool
  | JNum int
  | JStr string
  | JObj "(string \<times> jsvalue) list"

type_synonym jsobject = "(string \<times> jsvalue) list"

text \<open>\<^verbatim>\<open>obj.key\<close> on an object: a property that is not there reads as \<^verbatim>\<open>undefined\<close>.\<close>

definition property :: "jsobject \<Rightarrow> string \<Rightarrow> jsvalue" where
  "property obj key = (case map_of obj key of None \<Rightarrow> JUndefined | Some v \<Rightarrow> v)"

text \<open>
  \<^verbatim>\<open>v?.key\<close>: \<^verbatim>\<open>undefined\<close> when \<open>v\<close> is \<^verbatim>\<open>undefined\<close> or \<^verbatim>\<open>null\<close>, the property
  when \<open>v\<close> is an object. A boolean, number or string has none of the properties the
  builders ask for, so the read is \<^verbatim>\<open>undefined\<close> there as well.
\<close>

definition optchain :: "jsvalue \<Rightarrow> string \<Rightarrow> jsvalue" where
  "optchain v key = (case v of JObj obj \<Rightarrow> property obj key | _ \<Rightarrow> JUndefined)"

text \<open>\<^verbatim>\<open>null\<close> or \<^verbatim>\<open>undefined\<close>.\<close>

definition absent :: "jsvalue \<Rightarrow> bool" where
  "absent v = (v = JNull \<or> v = JUndefined)"

text \<open>\<^verbatim>\<open>a ?? b\<close>\<close>

definition nullish :: "jsvalue \<Rightarrow> jsvalue \<Rightarrow> jsvalue" where
  "nullish a b = (if absent a then b else a)"

text \<open>The truth value of \<open>v\<close> in a condition (\<^verbatim>\<open>v ? x : y\<close>).\<close>

fun truthy :: "jsvalue \<Rightarrow> bool" where
  "truthy JUndefined = False"
| "truthy JNull = False"
| "truthy (JBool b) = b"
| "truthy (JNum n) = (n \<noteq> 0)"
| "truthy (JStr s) = (s \<noteq> [])"
| "truthy (JObj obj) = True"

text \<open>
  A property written in an object literal: a key that the object already has keeps its
  place and takes the new value, a new key goes to the end.
\<close>

fun define_prop :: "string \<Rightarrow> jsvalue \<Rightarrow> jsobject \<Rightarrow> jsobject" where
  "define_prop key v [] = [(key, v)]"
| "define_prop key v ((k, w) # obj) =
     (if k = key then (key, v) # obj else (k, w) # define_prop key v obj)"

text \<open>\<^verbatim>\<open>{ ...target, ...src }\<close>: the properties of \<open>src\<close> written into \<open>target\<close> in order.\<close>

definition spread :: "jsobject \<Rightarrow> jsobject \<Rightarrow> jsobject" where
  "spread src target = fold (\<lambda>(key, v). define_prop key v) src target"

text \<open>\<^verbatim>\<open>Object.keys(obj)\<close>\<close>

definition keys :: "jsobject \<Rightarrow> string list" where
  "keys obj = map fst obj"

text \<open>\<^verbatim>\<open>lines.join(sep)\<close> on an array of strings.\<close>

fun join :: "string \<Rightarrow> string list \<Rightarrow> string" where
  "join sep [] = []"
| "join sep [x] = x"
| "join sep (x # y # ys) = x @ sep @ join sep (y # ys)"

text \<open>
  \<^verbatim>\<open>s.split(c)\<close> for a one-character separator: always at least one segment, the
  empty string splits into one empty segment.
\<close>

fun split :: "char \<Rightarrow> string \<Rightarrow> string list" where
  "split c [] = [[]]"
| "split c (x # xs) =
     (if x = c then [] # split c xs
      else (case split c xs of [] \<Rightarrow> [[x]] | seg # segs \<Rightarrow> (x # seg) # segs))"

definition newline :: string where
  "newline = [CHR 0x0A]"

section \<open>Workflow steps\<close>

text \<open>
  Modelled from the spec: \<^verbatim>\<open>removeNullOrUndefinedProperties\<close> of \<^verbatim>\<open>../util/object\<close> is
  imported by the step builders and is not among the sources. The spec describes it as
  the parameter map "with null/undefined entries removed": "build a mapping, filter
  entries whose value is absent". The surviving entries keep their order.
\<close>

definition removeNullOrUndefinedProperties :: "jsobject \<Rightarrow> jsobject" where
  "removeNullOrUndefinedProperties obj =
     filter (\<lambda>(key, v). \<not> absent v) obj"

text \<open>
  \<^verbatim>\<open>buildJobStepConfig\<close>: an object literal of seven properties, each read from the
  options with \<^verbatim>\<open>?.\<close>.
\<close>

definition buildJobStepConfig :: "jsobject \<Rightarrow> jsobject" where
  "buildJobStepConfig options =
     [(''continueOnError'', property options ''continueOnError''),
      (''env'', property options ''env''),
      (''id'', property options ''id''),
      (''if'', property options ''if''),
      (''name'', property options ''name''),
      (''timeoutMinutes'', property options ''timeoutMinutes''),
      (''workingDirectory'', property options ''workingDirectory'')]"

text \<open>
  The builders whose results are examined below. Each builds its common part with
  \<^verbatim>\<open>buildJobStepConfig\<close> from the options with the default name written over them
  (\<^verbatim>\<open>{ ...options, name: options.name ?? "..." }\<close>), and spreads it into the step.
  \<^verbatim>\<open>checkout(options = {})\<close>: a call without argument is \<open>checkout []\<close>.
\<close>

definition checkout :: "jsobject \<Rightarrow> jsobject" where
  "checkout options =
     (let w = property options ''with'';
          checkoutWith = removeNullOrUndefinedProperties
            (spread (if truthy (optchain w ''lfs'') then [(''lfs'', JBool True)] else [])
               [(''fetch-depth'', optchain w ''fetchDepth''),
                (''token'', optchain w ''token''),
                (''ref'', optchain w ''ref''),
                (''repository'', optchain w ''repository'')])
      in define_prop ''with''
           (if length (keys checkoutWith) > 0 then JObj checkoutWith else JUndefined)
           (define_prop ''uses'' (JStr ''actions/checkout@v3'')
              (spread
                 (buildJobStepConfig
                    (define_prop ''name'' (nullish (property options ''name'') (JStr ''Checkout''))
                       (spread options [])))
                 [])))"

definition tagExists :: "string \<Rightarrow> jsobject \<Rightarrow> jsobject" where
  \<open>tagExists tag options =
     (let checkTag = (\<lambda>remoteTag. ''git ls-remote -q --exit-code --tags origin '' @ remoteTag);
          varIsSet = (\<lambda>variable. ''[ ! -z "$'' @ variable @ ''" ]'');
          setOutput = (\<lambda>v. ''(echo "exists='' @ (if v then ''true'' else ''false'')
                              @ ''" >> $GITHUB_OUTPUT)'')
      in define_prop ''run''
           (JStr (join newline
              [''TAG='' @ tag,
               ''('' @ varIsSet ''TAG'' @ '' && '' @ checkTag ''$TAG'' @ '' && ''
                 @ setOutput True @ '') || '' @ setOutput False,
               ''cat $GITHUB_OUTPUT'']))
           (spread
              (buildJobStepConfig
                 (define_prop ''id'' (nullish (property options ''id'') (JStr ''check-tag''))
                    (define_prop ''name''
                       (nullish (property options ''name'') (JStr ''Check if tag exists''))
                       (spread options []))))
              []))\<close>

definition uploadArtifact :: "jsobject \<Rightarrow> jsobject" where
  "uploadArtifact options =
     (let w = property options ''with'';
          uploadArtifactWith = removeNullOrUndefinedProperties
            [(''name'', optchain w ''name''),
             (''path'', optchain w ''path''),
             (''overwrite'', nullish (optchain w ''overwrite'') (JBool True)),
             (''if-no-files-found'', optchain w ''ifNoFilesFound''),
             (''retention-days'', optchain w ''retentionDays''),
             (''compression-level'', optchain w ''compressionLevel'')]
      in define_prop ''with'' (JObj uploadArtifactWith)
           (define_prop ''uses'' (JStr ''actions/upload-artifact@v4'')
              (spread
                 (buildJobStepConfig
                    (define_prop ''name''
                       (nullish (property options ''name'') (JStr ''Upload artifact''))
                       (spread options [])))
                 [])))"

section \<open>The projenrc generator\<close>

text \<open>
  \<^verbatim>\<open>Projenrc.generateProjenrc\<close> talks to the file system (\<^verbatim>\<open>existsSync\<close>,
  \<^verbatim>\<open>outputFileSync\<close>) and to the project's logger. The host is the state it acts on:
  the files by path, and the calls made so far, in order. The two file system calls
  are library calls: \<^verbatim>\<open>existsSync\<close> answers from the files, \<^verbatim>\<open>outputFileSync\<close> stores
  the whole text at the path; an I/O failure of the library is not part of the model.
\<close>

datatype effect =
    ExistsSync string
  | OutputFileSync string string
  | LoggerInfo string

record host =
  files :: "string \<rightharpoonup> string"
  trace :: "effect list"

text \<open>\<^verbatim>\<open>project.initProject\<close>: the bootstrap descriptor.\<close>

record ('a, 't, 'c) InitProject =
  fqn :: string
  args :: 'a
  type :: 't
  comments :: 'c

record ('a, 't, 'c) Project =
  outdir :: string
  initProject :: "('a, 't, 'c) InitProject option"

record ('a, 't, 'c) Projenrc =
  rcfile :: string
  projenCodeDir :: string
  project :: "('a, 't, 'c) Project"

text \<open>
  What \<^verbatim>\<open>generateProjenrc\<close> calls and the sources do not hold is a parameter:
  \<^verbatim>\<open>path.resolve\<close>, \<^verbatim>\<open>renderJavaScriptOptions\<close> (it returns the rendered options and
  an import collection, or throws \<open>'e\<close>), and the two methods of the import collection
  \<open>'i\<close>. The symbol given to \<^verbatim>\<open>imports.add\<close> is an array read, so it is optional.
\<close>

record ('a, 't, 'c, 'e, 'i) collaborators =
  resolve :: "string \<Rightarrow> string \<Rightarrow> string"
  renderJavaScriptOptions :: "'a \<Rightarrow> 't \<Rightarrow> 'c \<Rightarrow> 'e + string \<times> 'i"
  imports_add :: "string option \<Rightarrow> string option \<Rightarrow> 'i \<Rightarrow> 'i"
  asEsmImports :: "'i \<Rightarrow> string list"

text \<open>\<^verbatim>\<open>parts[i]\<close>: \<^verbatim>\<open>undefined\<close> past the end of the array.\<close>

definition index :: "'a list \<Rightarrow> nat \<Rightarrow> 'a option" where
  "index xs i = (if i < length xs then Some (xs ! i) else None)"

text \<open>\<^verbatim>\<open>parts.slice(1)\<close>\<close>

definition slice :: "nat \<Rightarrow> 'a list \<Rightarrow> 'a list" where
  "slice n xs = drop n xs"

text \<open>\<^verbatim>\<open>lines.push(...items)\<close>: the array with the items at its end.\<close>

definition push :: "'a list \<Rightarrow> 'a list \<Rightarrow> 'a list" where
  "push items arr = arr @ items"

definition existsSync :: "string \<Rightarrow> host \<Rightarrow> bool \<times> host" where
  "existsSync path h = (path \<in> dom (files h), h\<lparr>trace := trace h @ [ExistsSync path]\<rparr>)"

definition outputFileSync :: "string \<Rightarrow> string \<Rightarrow> host \<Rightarrow> host" where
  "outputFileSync path content h =
     h\<lparr>files := (files h)(path \<mapsto> content),
       trace := trace h @ [OutputFileSync path content]\<rparr>"

definition logger_info :: "string \<Rightarrow> host \<Rightarrow> host" where
  "logger_info msg h = h\<lparr>trace := trace h @ [LoggerInfo msg]\<rparr>"

definition generateProjenrc ::
  "('a, 't, 'c, 'e, 'i) collaborators \<Rightarrow> ('a, 't, 'c) Projenrc \<Rightarrow> host \<Rightarrow> ('e + unit) \<times> host"
where
  "generateProjenrc env this h =
     (let rcfile = resolve env (outdir (project this)) (rcfile this);
          (ex, h1) = existsSync rcfile h
      in if ex then (Inr (), h1)
         else (case initProject (project this) of
             None \<Rightarrow> (Inr (), h1)
           | Some bootstrap \<Rightarrow>
               (let parts = split CHR ''.'' (fqn bootstrap);
                    moduleName = index parts 0;
                    importName = index parts 1;
                    className = join ''.'' (slice 1 parts)
                in (case renderJavaScriptOptions env
                          (args bootstrap) (type bootstrap) (comments bootstrap) of
                      Inl err \<Rightarrow> (Inl err, h1)
                    | Inr (renderedOptions, imports) \<Rightarrow>
                        (let imports = imports_add env moduleName importName imports;
                             lines = [];
                             lines = push (asEsmImports env imports) lines;
                             lines = push [] lines;
                             lines = push [''const project = new '' @ className @ ''(''
                                             @ renderedOptions @ '');''] lines;
                             lines = push [] lines;
                             lines = push [''project.synth();''] lines;
                             h2 = outputFileSync rcfile (join newline lines) h1;
                             h3 = logger_info
                                    (''Project definition file was created at '' @ rcfile) h2
                         in (Inr (), h3))))))"

section \<open>Reading a step\<close>

text \<open>The keys of a step's parameter map; none when the step has no \<^verbatim>\<open>with\<close>.\<close>

definition paramKeys :: "jsobject \<Rightarrow> string list" where
  "paramKeys step = (case property step ''with'' of JObj m \<Rightarrow> keys m | _ \<Rightarrow> [])"

text \<open>The lines of a step's \<^verbatim>\<open>run\<close> script.\<close>

definition runLines :: "jsobject \<Rightarrow> string list" where
  "runLines step = (case property step ''run'' of JStr s \<Rightarrow> split (CHR 0x0A) s | _ \<Rightarrow> [])"

section \<open>Collaborators for concrete runs\<close>

text \<open>
  Modelled from the spec: the import collection that \<^verbatim>\<open>renderJavaScriptOptions\<close>
  returns (\<^verbatim>\<open>../javascript/render-options\<close>) is not among the sources. The spec: it
  "supports add(module, symbol) and produces a lazy sequence of import-statement
  strings, finite, order stable by insertion, deduplicated by (module, symbol) pair",
  the statements being "one per required import, deduplicated by module, symbol names
  merged". The modules are printed in the order of their first insertion. The spec does
  not give the text of a statement; this collection prints the ESM form, a missing name
  as the empty string. It serves the concrete runs below; the
  theorems about the generator hold for every collaborator.
\<close>

type_synonym module_imports = "(string option \<times> string option) list"

definition module_imports_add ::
  "string option \<Rightarrow> string option \<Rightarrow> module_imports \<Rightarrow> module_imports" where
  "module_imports_add m s imps = (if (m, s) \<in> set imps then imps else imps @ [(m, s)])"

definition printed :: "string option \<Rightarrow> string" where
  "printed x = (case x of None \<Rightarrow> [] | Some name \<Rightarrow> name)"

definition module_imports_asEsmImports :: "module_imports \<Rightarrow> string list" where
  \<open>module_imports_asEsmImports imps =
     map (\<lambda>m. ''import { '' @ join '', '' (map (printed \<circ> snd) (filter (\<lambda>(m', s). m' = m) imps))
               @ '' } from "'' @ printed m @ ''";'')
       (rev (remdups (rev (map fst imps))))\<close>

text \<open>
  A renderer for the concrete runs: constructor arguments that are already text render
  as that text and need no import, anything else cannot be rendered.
\<close>

definition example_env ::
  "(string option, unit, unit, string, module_imports) collaborators" where
  "example_env =
     \<lparr>resolve = (\<lambda>dir file. dir @ ''/'' @ file),
      renderJavaScriptOptions =
        (\<lambda>a t c. case a of None \<Rightarrow> Inl ''cannot render'' | Some txt \<Rightarrow> Inr (txt, [])),
      imports_add = module_imports_add,
      asEsmImports = module_imports_asEsmImports\<rparr>"

definition example_projenrc ::
  "string \<Rightarrow> string option \<Rightarrow> (string option, unit, unit) Projenrc" where
  "example_projenrc name a =
     \<lparr>rcfile = ''.projenrc.ts'', projenCodeDir = ''projenrc'',
      project = \<lparr>outdir = ''/work'',
                 initProject = Some \<lparr>fqn = name, args = a, type = (), comments = ()\<rparr>\<rparr>\<rparr>"

definition empty_host :: host where
  "empty_host = \<lparr>files = Map.empty, trace = []\<rparr>"

definition host_with_file :: "string \<Rightarrow> string \<Rightarrow> host" where
  "host_with_file path content = \<lparr>files = [path \<mapsto> content], trace = []\<rparr>"

section \<open>Facts about objects\<close>

lemma property_define_prop_same: "property (define_prop key v obj) key = v"
  by (induction obj) (auto simp: property_def)

lemma property_define_prop_other:
  "key' \<noteq> key \<Longrightarrow> property (define_prop key v obj) key' = property obj key'"
  by (induction obj) (auto simp: property_def)

lemma keys_define_prop:
  "keys (define_prop key v obj) = (if key \<in> set (keys obj) then keys obj else keys obj @ [key])"
  by (induction obj) (force simp: keys_def)+

lemma removed_all_present:
  "list_all (\<lambda>(key, v). \<not> absent v) (removeNullOrUndefinedProperties obj)"
  by (simp add: removeNullOrUndefinedProperties_def list_all_iff split_def)

lemma removed_empty_iff:
  "removeNullOrUndefinedProperties obj = [] \<longleftrightarrow> list_all (\<lambda>(key, v). absent v) obj"
  by (auto simp: removeNullOrUndefinedProperties_def filter_empty_conv list_all_iff)

lemma keys_removed_subset:
  "set (keys (removeNullOrUndefinedProperties obj)) \<subseteq> set (keys obj)"
  by (auto simp: removeNullOrUndefinedProperties_def keys_def)

lemma nullish_present: "\<not> absent (nullish a (JBool True))"
  by (simp add: nullish_def absent_def)

lemma property_removed:
  assumes "distinct (keys obj)" and "(key, v) \<in> set obj" and "\<not> absent v"
  shows "property (removeNullOrUndefinedProperties obj) key = v"
    and "key \<in> set (keys (removeNullOrUndefinedProperties obj))"
proof -
  let ?m = "removeNullOrUndefinedProperties obj"
  have mem: "(key, v) \<in> set ?m"
    using assms(2,3) by (simp add: removeNullOrUndefinedProperties_def)
  have "distinct (map fst ?m)"
    using assms(1) by (simp add: removeNullOrUndefinedProperties_def keys_def distinct_map_filter)
  then have "map_of ?m key = Some v"
    using mem by simp
  then show "property ?m key = v"
    by (simp add: property_def)
  show "key \<in> set (keys ?m)"
    using mem by (force simp: keys_def)
qed

section \<open>The parameter map of a step\<close>

lemma checkout_with:
  "property (checkout options) ''with'' =
     (let w = property options ''with'';
          m = removeNullOrUndefinedProperties
            ([(''fetch-depth'', optchain w ''fetchDepth''),
              (''token'', optchain w ''token''),
              (''ref'', optchain w ''ref''),
              (''repository'', optchain w ''repository'')]
             @ (if truthy (optchain w ''lfs'') then [(''lfs'', JBool True)] else []))
      in if m = [] then JUndefined else JObj m)"
  by (simp add: checkout_def Let_def property_define_prop_same spread_def keys_def)

lemma uploadArtifact_with:
  "property (uploadArtifact options) ''with'' =
     (let w = property options ''with'' in
      JObj (removeNullOrUndefinedProperties
            [(''name'', optchain w ''name''),
             (''path'', optchain w ''path''),
             (''overwrite'', nullish (optchain w ''overwrite'') (JBool True)),
             (''if-no-files-found'', optchain w ''ifNoFilesFound''),
             (''retention-days'', optchain w ''retentionDays''),
             (''compression-level'', optchain w ''compressionLevel'')]))"
  by (simp add: uploadArtifact_def Let_def property_define_prop_same)

lemma checkout_with_shape:
  "case property (checkout options) ''with'' of
      JUndefined \<Rightarrow> True
    | JObj m \<Rightarrow> m \<noteq> [] \<and> list_all (\<lambda>(key, v). \<not> absent v) m
    | _ \<Rightarrow> False"
  unfolding checkout_with Let_def using removed_all_present by simp

lemma checkout_with_undefined_iff:
  "property (checkout options) ''with'' = JUndefined \<longleftrightarrow>
     list_all (\<lambda>key. absent (optchain (property options ''with'') key))
       [''fetchDepth'', ''token'', ''ref'', ''repository'']
     \<and> \<not> truthy (optchain (property options ''with'') ''lfs'')"
  unfolding checkout_with Let_def
  by (simp add: removed_empty_iff absent_def)

lemma uploadArtifact_with_shape:
  "\<exists>m. property (uploadArtifact options) ''with'' = JObj m
     \<and> list_all (\<lambda>(key, v). \<not> absent v) m
     \<and> property m ''overwrite'' =
         nullish (optchain (property options ''with'') ''overwrite'') (JBool True)
     \<and> ''overwrite'' \<in> set (keys m)"
proof -
  define w where "w = property options ''with''"
  define obj where "obj =
            [(''name'', optchain w ''name''),
             (''path'', optchain w ''path''),
             (''overwrite'', nullish (optchain w ''overwrite'') (JBool True)),
             (''if-no-files-found'', optchain w ''ifNoFilesFound''),
             (''retention-days'', optchain w ''retentionDays''),
             (''compression-level'', optchain w ''compressionLevel'')]"
  have d: "distinct (keys obj)"
    by (simp add: obj_def keys_def)
  have mem: "(''overwrite'', nullish (optchain w ''overwrite'') (JBool True)) \<in> set obj"
    by (simp add: obj_def)
  have "property (uploadArtifact options) ''with'' = JObj (removeNullOrUndefinedProperties obj)"
    by (simp add: uploadArtifact_with Let_def obj_def w_def)
  moreover note removed_all_present [of obj]
    property_removed [OF d mem nullish_present]
  ultimately show ?thesis
    unfolding w_def by blast
qed

text \<open>
  C5, as the code has it. Neither builder emits a parameter map with a null or
  undefined value. \<^verbatim>\<open>checkout\<close> emits no map at all (\<^verbatim>\<open>with\<close> is undefined, never an
  empty map) exactly when fetchDepth, token, ref and repository are absent and lfs is
  not set. \<^verbatim>\<open>uploadArtifact\<close> always emits a map, and the map always holds
  \<^verbatim>\<open>overwrite\<close>: the given value, or true when none is given.
\<close>

theorem step_with_has_no_absent_value:
  "(case property (checkout options) ''with'' of
      JUndefined \<Rightarrow> True
    | JObj m \<Rightarrow> m \<noteq> [] \<and> list_all (\<lambda>(key, v). \<not> absent v) m
    | _ \<Rightarrow> False)
   \<and> (property (checkout options) ''with'' = JUndefined \<longleftrightarrow>
        list_all (\<lambda>key. absent (optchain (property options ''with'') key))
          [''fetchDepth'', ''token'', ''ref'', ''repository'']
        \<and> \<not> truthy (optchain (property options ''with'') ''lfs''))
   \<and> (\<exists>m. property (uploadArtifact options) ''with'' = JObj m
          \<and> list_all (\<lambda>(key, v). \<not> absent v) m
          \<and> property m ''overwrite'' =
              nullish (optchain (property options ''with'') ''overwrite'') (JBool True)
          \<and> ''overwrite'' \<in> set (keys m))"
  using checkout_with_shape [of options] checkout_with_undefined_iff [of options]
    uploadArtifact_with_shape [of options]
  by blast

theorem step_with_has_no_absent_value_witness:
  "property (checkout [(''with'', JObj [(''token'', JNull)])]) ''with'' = JUndefined
   \<and> property (uploadArtifact [(''with'', JObj [(''path'', JStr ''dist''), (''name'', JNull)])])
        ''with'' \<noteq> JUndefined"
  using step_with_has_no_absent_value [of "[(''with'', JObj [(''token'', JNull)])]"]
    step_with_has_no_absent_value
      [of "[(''with'', JObj [(''path'', JStr ''dist''), (''name'', JNull)])]"]
  by (auto simp: property_def optchain_def absent_def)

text \<open>
  C5, as the spec states it, fails for \<^verbatim>\<open>uploadArtifact\<close>: with every optional input
  absent the step still has a parameter map.
\<close>

theorem uploadArtifact_with_present_counterexample:
  "optchain (property [(''with'', JObj [(''path'', JStr ''dist'')])] ''with'') ''name'' = JUndefined
   \<and> optchain (property [(''with'', JObj [(''path'', JStr ''dist'')])] ''with'') ''overwrite''
       = JUndefined
   \<and> optchain (property [(''with'', JObj [(''path'', JStr ''dist'')])] ''with'') ''ifNoFilesFound''
       = JUndefined
   \<and> optchain (property [(''with'', JObj [(''path'', JStr ''dist'')])] ''with'') ''retentionDays''
       = JUndefined
   \<and> optchain (property [(''with'', JObj [(''path'', JStr ''dist'')])] ''with'')
        ''compressionLevel'' = JUndefined
   \<and> property (uploadArtifact [(''with'', JObj [(''path'', JStr ''dist'')])]) ''with''
       \<noteq> JUndefined"
  by (simp add: uploadArtifact_with) (simp add: property_def optchain_def)

text \<open>
  C6. \<^verbatim>\<open>uploadArtifact({with: {path: "dist"}})\<close>: the parameter map is the path and
  \<^verbatim>\<open>overwrite = true\<close>, with no other key, and \<^verbatim>\<open>uses\<close> is the upload-artifact action
  at v4.
\<close>

theorem uploadArtifact_dist_defaults:
  "property (uploadArtifact [(''with'', JObj [(''path'', JStr ''dist'')])]) ''with'' =
     JObj [(''path'', JStr ''dist''), (''overwrite'', JBool True)]
   \<and> paramKeys (uploadArtifact [(''with'', JObj [(''path'', JStr ''dist'')])]) =
       [''path'', ''overwrite'']
   \<and> property (uploadArtifact [(''with'', JObj [(''path'', JStr ''dist'')])]) ''uses'' =
       JStr ''actions/upload-artifact@v4''"
proof -
  let ?step = "uploadArtifact [(''with'', JObj [(''path'', JStr ''dist'')])]"
  have w: "property ?step ''with'' = JObj [(''path'', JStr ''dist''), (''overwrite'', JBool True)]"
    unfolding uploadArtifact_with
    by (simp add: property_def optchain_def nullish_def absent_def
        removeNullOrUndefinedProperties_def)
  have u: "property ?step ''uses'' = JStr ''actions/upload-artifact@v4''"
    by (simp add: uploadArtifact_def Let_def property_define_prop_same property_define_prop_other)
  from w u show ?thesis
    by (simp add: paramKeys_def keys_def)
qed

text \<open>
  C7. \<^verbatim>\<open>checkout\<close>: when the lfs option is true the parameter map holds
  \<^verbatim>\<open>lfs = true\<close>; when it is omitted or false the parameter map has no lfs key.
\<close>

theorem checkout_lfs_only_when_true:
  "(optchain (property options ''with'') ''lfs'' = JBool True \<longrightarrow>
      (\<exists>m. property (checkout options) ''with'' = JObj m \<and> property m ''lfs'' = JBool True)
      \<and> ''lfs'' \<in> set (paramKeys (checkout options)))
   \<and> (optchain (property options ''with'') ''lfs'' = JUndefined
        \<or> optchain (property options ''with'') ''lfs'' = JBool False \<longrightarrow>
      ''lfs'' \<notin> set (paramKeys (checkout options)))"
proof (intro conjI impI)
  define w where "w = property options ''with''"
  define common where "common =
     [(''fetch-depth'', optchain w ''fetchDepth''), (''token'', optchain w ''token''),
      (''ref'', optchain w ''ref''), (''repository'', optchain w ''repository'')]"
  {
    assume "optchain (property options ''with'') ''lfs'' = JBool True"
    then have t: "truthy (optchain w ''lfs'')"
      by (simp add: w_def)
    define obj where "obj = common @ [(''lfs'', JBool True)]"
    have d: "distinct (keys obj)"
      by (simp add: obj_def common_def keys_def)
    have mem: "(''lfs'', JBool True) \<in> set obj"
      by (simp add: obj_def)
    have p: "\<not> absent (JBool True)"
      by (simp add: absent_def)
    note r = property_removed [OF d mem p]
    from r(2) have ne: "removeNullOrUndefinedProperties obj \<noteq> []"
      by (auto simp: keys_def)
    with t have cw:
      "property (checkout options) ''with'' = JObj (removeNullOrUndefinedProperties obj)"
      by (simp add: checkout_with Let_def obj_def common_def w_def)
    with r(1)
    show "\<exists>m. property (checkout options) ''with'' = JObj m \<and> property m ''lfs'' = JBool True"
      by blast
    from cw r(2) show "''lfs'' \<in> set (paramKeys (checkout options))"
      by (simp add: paramKeys_def)
  }
  {
    assume "optchain (property options ''with'') ''lfs'' = JUndefined
        \<or> optchain (property options ''with'') ''lfs'' = JBool False"
    then have t: "\<not> truthy (optchain w ''lfs'')"
      by (auto simp: w_def)
    have "''lfs'' \<notin> set (keys common)"
      by (simp add: common_def keys_def)
    with keys_removed_subset [of common]
    have nk: "''lfs'' \<notin> set (keys (removeNullOrUndefinedProperties common))"
      by blast
    from t have "property (checkout options) ''with'' =
        (if removeNullOrUndefinedProperties common = [] then JUndefined
         else JObj (removeNullOrUndefinedProperties common))"
      by (simp add: checkout_with Let_def common_def w_def)
    with nk show "''lfs'' \<notin> set (paramKeys (checkout options))"
      by (simp add: paramKeys_def)
  }
qed

theorem checkout_lfs_only_when_true_witness:
  "optchain (property [(''with'', JObj [(''lfs'', JBool True)])] ''with'') ''lfs'' = JBool True
   \<and> ''lfs'' \<in> set (paramKeys (checkout [(''with'', JObj [(''lfs'', JBool True)])]))
   \<and> optchain (property [(''with'', JObj [(''lfs'', JBool False), (''ref'', JStr ''main'')])]
        ''with'') ''lfs'' = JBool False
   \<and> ''lfs'' \<notin> set (paramKeys
        (checkout [(''with'', JObj [(''lfs'', JBool False), (''ref'', JStr ''main'')])]))
   \<and> optchain (property [] ''with'') ''lfs'' = JUndefined
   \<and> ''lfs'' \<notin> set (paramKeys (checkout []))"
proof -
  have a: "optchain (property [(''with'', JObj [(''lfs'', JBool True)])] ''with'') ''lfs''
             = JBool True"
    by (simp add: property_def optchain_def)
  have b: "optchain (property [(''with'', JObj [(''lfs'', JBool False), (''ref'', JStr ''main'')])]
             ''with'') ''lfs'' = JBool False"
    by (simp add: property_def optchain_def)
  have c: "optchain (property [] ''with'') ''lfs'' = JUndefined"
    by (simp add: property_def optchain_def)
  from a b c
    checkout_lfs_only_when_true [of "[(''with'', JObj [(''lfs'', JBool True)])]"]
    checkout_lfs_only_when_true
      [of "[(''with'', JObj [(''lfs'', JBool False), (''ref'', JStr ''main'')])]"]
    checkout_lfs_only_when_true [of "[]"]
  show ?thesis
    by blast
qed

text \<open>
  C8. The \<^verbatim>\<open>run\<close> script of \<^verbatim>\<open>tagExists\<close> is three lines joined by newlines: the
  assignment of the tag to \<^verbatim>\<open>TAG\<close>, the line that writes \<^verbatim>\<open>exists=true\<close> when the
  variable is set and the remote tag query succeeds and \<^verbatim>\<open>exists=false\<close> otherwise,
  and \<^verbatim>\<open>cat $GITHUB_OUTPUT\<close>. For the tag \<^verbatim>\<open>v1.2.3\<close> and no options the three lines
  are the ones below.
\<close>

theorem tagExists_script:
  \<open>property (tagExists tag options) ''run'' =
     JStr (''TAG='' @ tag @ newline
        @ ''([ ! -z "$TAG" ] && git ls-remote -q --exit-code --tags origin $TAG && (echo "exists=true" >> $GITHUB_OUTPUT)) || (echo "exists=false" >> $GITHUB_OUTPUT)''
        @ newline @ ''cat $GITHUB_OUTPUT'')
   \<and> runLines (tagExists ''v1.2.3'' []) =
       [''TAG=v1.2.3'',
        ''([ ! -z "$TAG" ] && git ls-remote -q --exit-code --tags origin $TAG && (echo "exists=true" >> $GITHUB_OUTPUT)) || (echo "exists=false" >> $GITHUB_OUTPUT)'',
        ''cat $GITHUB_OUTPUT'']\<close>
proof -
  have r: \<open>property (tagExists tag options) ''run'' =
     JStr (''TAG='' @ tag @ newline
        @ ''([ ! -z "$TAG" ] && git ls-remote -q --exit-code --tags origin $TAG && (echo "exists=true" >> $GITHUB_OUTPUT)) || (echo "exists=false" >> $GITHUB_OUTPUT)''
        @ newline @ ''cat $GITHUB_OUTPUT'')\<close> for tag options
    by (simp add: tagExists_def Let_def property_define_prop_same)
  show ?thesis
    unfolding runLines_def r
    by (simp add: newline_def)
qed

text \<open>
  C9. The common part of a step has the seven allowlisted keys and no other: a key of
  the options that is not allowlisted is not a key of what \<^verbatim>\<open>buildJobStepConfig\<close>
  returns, an allowlisted key carries the option's value. The steps built on it have
  these seven keys, then \<^verbatim>\<open>uses\<close> and \<^verbatim>\<open>with\<close>, or \<^verbatim>\<open>run\<close>.
\<close>

theorem buildJobStepConfig_allowlist:
  "keys (buildJobStepConfig options) =
     [''continueOnError'', ''env'', ''id'', ''if'', ''name'', ''timeoutMinutes'',
      ''workingDirectory'']
   \<and> (key \<in> set (keys options)
        \<and> key \<notin> set [''continueOnError'', ''env'', ''id'', ''if'', ''name'',
                       ''timeoutMinutes'', ''workingDirectory'']
      \<longrightarrow> key \<notin> set (keys (buildJobStepConfig options)))
   \<and> (key \<in> set [''continueOnError'', ''env'', ''id'', ''if'', ''name'',
                   ''timeoutMinutes'', ''workingDirectory'']
      \<longrightarrow> property (buildJobStepConfig options) key = property options key)
   \<and> keys (checkout options) =
       [''continueOnError'', ''env'', ''id'', ''if'', ''name'', ''timeoutMinutes'',
        ''workingDirectory'', ''uses'', ''with'']
   \<and> keys (tagExists tag options) =
       [''continueOnError'', ''env'', ''id'', ''if'', ''name'', ''timeoutMinutes'',
        ''workingDirectory'', ''run'']
   \<and> keys (uploadArtifact options) =
       [''continueOnError'', ''env'', ''id'', ''if'', ''name'', ''timeoutMinutes'',
        ''workingDirectory'', ''uses'', ''with'']"
proof -
  have k: "keys (buildJobStepConfig opts) =
     [''continueOnError'', ''env'', ''id'', ''if'', ''name'', ''timeoutMinutes'',
      ''workingDirectory'']" for opts
    by (simp add: buildJobStepConfig_def keys_def)
  have s: "keys (spread (buildJobStepConfig opts) []) =
     [''continueOnError'', ''env'', ''id'', ''if'', ''name'', ''timeoutMinutes'',
      ''workingDirectory'']" for opts
    by (simp add: spread_def buildJobStepConfig_def keys_def)
  have v: "key \<in> set [''continueOnError'', ''env'', ''id'', ''if'', ''name'',
                   ''timeoutMinutes'', ''workingDirectory'']
      \<Longrightarrow> property (buildJobStepConfig options) key = property options key"
    by (auto simp: buildJobStepConfig_def property_def)
  have c: "keys (checkout options) =
       [''continueOnError'', ''env'', ''id'', ''if'', ''name'', ''timeoutMinutes'',
        ''workingDirectory'', ''uses'', ''with'']"
    by (simp add: checkout_def Let_def keys_define_prop s)
  have t: "keys (tagExists tag options) =
       [''continueOnError'', ''env'', ''id'', ''if'', ''name'', ''timeoutMinutes'',
        ''workingDirectory'', ''run'']"
    by (simp add: tagExists_def Let_def keys_define_prop s)
  have u: "keys (uploadArtifact options) =
       [''continueOnError'', ''env'', ''id'', ''if'', ''name'', ''timeoutMinutes'',
        ''workingDirectory'', ''uses'', ''with'']"
    by (simp add: uploadArtifact_def Let_def keys_define_prop s)
  from k [of options] v c t u show ?thesis
    by simp
qed

theorem buildJobStepConfig_allowlist_witness:
  "''gitIdentity'' \<in> set (keys [(''id'', JStr ''s1''), (''gitIdentity'', JObj [])])
   \<and> ''gitIdentity'' \<notin> set (keys (buildJobStepConfig
        [(''id'', JStr ''s1''), (''gitIdentity'', JObj [])]))
   \<and> property (buildJobStepConfig [(''id'', JStr ''s1''), (''gitIdentity'', JObj [])]) ''id''
       = JStr ''s1''"
  using buildJobStepConfig_allowlist
      [of "[(''id'', JStr ''s1''), (''gitIdentity'', JObj [])]" "''gitIdentity''"]
    buildJobStepConfig_allowlist
      [of "[(''id'', JStr ''s1''), (''gitIdentity'', JObj [])]" "''id''"]
  by (simp add: keys_def property_def)

section \<open>Splitting and joining\<close>


lemma split_no_separator: "c \<notin> set s \<Longrightarrow> split c s = [s]"
  by (induction s) auto

lemma join_Cons: "join sep (x # xs) = (if xs = [] then x else x @ sep @ join sep xs)"
  by (cases xs) auto


section \<open>The generator\<close>

lemma generateProjenrc_exists:
  assumes "resolve env (outdir (project this)) (rcfile this) = p"
    and "files h p = Some content"
  shows "generateProjenrc env this h = (Inr (), h\<lparr>trace := trace h @ [ExistsSync p]\<rparr>)"
  using assms by (simp add: generateProjenrc_def existsSync_def Let_def dom_def)

lemma generateProjenrc_render_fails:
  assumes "resolve env (outdir (project this)) (rcfile this) = p"
    and "files h p = None"
    and "initProject (project this) = Some bootstrap"
    and "renderJavaScriptOptions env (args bootstrap) (type bootstrap) (comments bootstrap)
           = Inl err"
  shows "generateProjenrc env this h = (Inl err, h\<lparr>trace := trace h @ [ExistsSync p]\<rparr>)"
  using assms by (simp add: generateProjenrc_def existsSync_def Let_def dom_def)

lemma generateProjenrc_writes:
  assumes "resolve env (outdir (project this)) (rcfile this) = p"
    and "files h p = None"
    and "initProject (project this) = Some bootstrap"
    and "renderJavaScriptOptions env (args bootstrap) (type bootstrap) (comments bootstrap)
           = Inr (renderedOptions, imps)"
    and "split CHR ''.'' (fqn bootstrap) = parts"
    and "join newline
           (asEsmImports env (imports_add env (index parts 0) (index parts 1) imps)
            @ [''const project = new '' @ join ''.'' (slice 1 parts) @ ''(''
                 @ renderedOptions @ '');'',
               ''project.synth();'']) = content"
  shows "generateProjenrc env this h =
     (Inr (),
      h\<lparr>files := (files h)(p \<mapsto> content),
        trace := trace h @ [ExistsSync p, OutputFileSync p content,
                   LoggerInfo (''Project definition file was created at '' @ p)]\<rparr>)"
  using assms
  by (simp add: generateProjenrc_def existsSync_def outputFileSync_def logger_info_def
      push_def Let_def dom_def)


text \<open>
  C1. When a file already exists at the resolved path, \<^verbatim>\<open>generateProjenrc\<close> returns
  without error after the existence check alone: the files are as before and the only
  call made is \<^verbatim>\<open>existsSync\<close>. A second call does the same.
\<close>

theorem generateProjenrc_skips_existing_file:
  assumes "resolve env (outdir (project this)) (rcfile this) = p"
    and "files h p = Some content"
  shows "generateProjenrc env this h = (Inr (), h\<lparr>trace := trace h @ [ExistsSync p]\<rparr>)
    \<and> files (snd (generateProjenrc env this h)) = files h
    \<and> generateProjenrc env this (snd (generateProjenrc env this h)) =
        (Inr (), h\<lparr>trace := trace h @ [ExistsSync p, ExistsSync p]\<rparr>)"
proof -
  let ?h1 = "h\<lparr>trace := trace h @ [ExistsSync p]\<rparr>"
  have first: "generateProjenrc env this h = (Inr (), ?h1)"
    using assms by (rule generateProjenrc_exists)
  have "files ?h1 p = Some content"
    using assms(2) by simp
  with assms(1) have "generateProjenrc env this ?h1 =
      (Inr (), ?h1\<lparr>trace := trace ?h1 @ [ExistsSync p]\<rparr>)"
    by (rule generateProjenrc_exists)
  with first show ?thesis
    by simp
qed

theorem generateProjenrc_skips_existing_file_witness:
  "files (host_with_file ''/work/.projenrc.ts'' ''// kept'') ''/work/.projenrc.ts''
     = Some ''// kept''
   \<and> generateProjenrc example_env (example_projenrc ''pkg.sub.Foo'' (Some ''{}''))
       (host_with_file ''/work/.projenrc.ts'' ''// kept'') =
      (Inr (), \<lparr>files = [''/work/.projenrc.ts'' \<mapsto> ''// kept''],
                trace = [ExistsSync ''/work/.projenrc.ts'']\<rparr>)"
  using generateProjenrc_skips_existing_file
    [where env = example_env and this = "example_projenrc ''pkg.sub.Foo'' (Some ''{}'')"
       and p = "''/work/.projenrc.ts''" and content = "''// kept''"
       and h = "host_with_file ''/work/.projenrc.ts'' ''// kept''"]
  by (simp add: example_env_def example_projenrc_def host_with_file_def)

text \<open>
  C2. The file written for \<^verbatim>\<open>pkg.sub.Foo\<close> with the rendered options \<^verbatim>\<open>{}\<close>: the import
  statement, the constructor statement and \<^verbatim>\<open>project.synth();\<close> on three consecutive
  lines. The two \<^verbatim>\<open>lines.push()\<close> calls without argument add no line, so the text is
  not the one with an empty line between the blocks.
\<close>

theorem generateProjenrc_emits_no_blank_lines:
  \<open>files (snd (generateProjenrc example_env (example_projenrc ''pkg.sub.Foo'' (Some ''{}''))
       empty_host)) ''/work/.projenrc.ts'' =
     Some (join newline
       [''import { sub } from "pkg";'',
        ''const project = new sub.Foo({});'',
        ''project.synth();''])
   \<and> files (snd (generateProjenrc example_env (example_projenrc ''pkg.sub.Foo'' (Some ''{}''))
       empty_host)) ''/work/.projenrc.ts'' \<noteq>
     Some (join newline
       [''import { sub } from "pkg";'',
        '''',
        ''const project = new sub.Foo({});'',
        '''',
        ''project.synth();''])\<close>
proof -
  have sp: "split CHR ''.'' ''pkg.sub.Foo'' = [''pkg'', ''sub'', ''Foo'']"
    by simp
  have \<open>generateProjenrc example_env (example_projenrc ''pkg.sub.Foo'' (Some ''{}'')) empty_host =
     (Inr (),
      empty_host\<lparr>files := (files empty_host)(''/work/.projenrc.ts'' \<mapsto>
          join newline [''import { sub } from "pkg";'', ''const project = new sub.Foo({});'',
            ''project.synth();'']),
        trace := trace empty_host @ [ExistsSync ''/work/.projenrc.ts'',
          OutputFileSync ''/work/.projenrc.ts''
            (join newline [''import { sub } from "pkg";'', ''const project = new sub.Foo({});'',
               ''project.synth();'']),
          LoggerInfo (''Project definition file was created at '' @ ''/work/.projenrc.ts'')]\<rparr>)\<close>
    by (rule generateProjenrc_writes
          [where bootstrap = "\<lparr>fqn = ''pkg.sub.Foo'', args = Some ''{}'', type = (), comments = ()\<rparr>"
             and renderedOptions = "''{}''" and imps = "[]"
             and parts = "[''pkg'', ''sub'', ''Foo'']"])
       (simp_all add: example_env_def example_projenrc_def empty_host_def sp index_def slice_def
          module_imports_add_def module_imports_asEsmImports_def printed_def)
  then show ?thesis
    by (simp add: newline_def)
qed



text \<open>
  C4. When \<^verbatim>\<open>renderJavaScriptOptions\<close> throws, \<^verbatim>\<open>generateProjenrc\<close> throws the same
  error, and the only call made before is the existence check: nothing is written, the
  files are as before.
\<close>

theorem generateProjenrc_render_failure_propagates:
  assumes "resolve env (outdir (project this)) (rcfile this) = p"
    and "files h p = None"
    and "initProject (project this) = Some bootstrap"
    and "renderJavaScriptOptions env (args bootstrap) (type bootstrap) (comments bootstrap)
           = Inl err"
  shows "generateProjenrc env this h = (Inl err, h\<lparr>trace := trace h @ [ExistsSync p]\<rparr>)
    \<and> files (snd (generateProjenrc env this h)) = files h
    \<and> files (snd (generateProjenrc env this h)) p = None"
proof -
  have "generateProjenrc env this h = (Inl err, h\<lparr>trace := trace h @ [ExistsSync p]\<rparr>)"
    using assms by (rule generateProjenrc_render_fails)
  with assms(2) show ?thesis
    by simp
qed

theorem generateProjenrc_render_failure_propagates_witness:
  "renderJavaScriptOptions example_env None () () = Inl ''cannot render''
   \<and> generateProjenrc example_env (example_projenrc ''pkg.sub.Foo'' None) empty_host =
      (Inl ''cannot render'',
       \<lparr>files = Map.empty, trace = [ExistsSync ''/work/.projenrc.ts'']\<rparr>)"
  using generateProjenrc_render_failure_propagates
    [where env = example_env and this = "example_projenrc ''pkg.sub.Foo'' None"
       and p = "''/work/.projenrc.ts''" and h = empty_host
       and bootstrap = "\<lparr>fqn = ''pkg.sub.Foo'', args = None, type = (), comments = ()\<rparr>"
       and err = "''cannot render''"]
  by (simp add: example_env_def example_projenrc_def empty_host_def)

lemma join_lines_then_two:
  "join sep (xs @ [a, b]) = foldr (\<lambda>line text. line @ sep @ text) xs (a @ sep @ b)"
  by (induction xs) (simp_all add: join_Cons)

text \<open>
  C10. A fully-qualified name without a dot: no error is raised and the file is
  written. The whole name is the module of the registered import, the symbol of that
  import is undefined, and the constructor statement constructs the empty class name:
  the text of the file is each import statement followed by a newline, then
  \<^verbatim>\<open>const project = new (<renderedOptions>);\<close>, a newline and \<^verbatim>\<open>project.synth();\<close>.
\<close>

theorem generateProjenrc_single_segment:
  assumes "resolve env (outdir (project this)) (rcfile this) = p"
    and "files h p = None"
    and "initProject (project this) = Some bootstrap"
    and "renderJavaScriptOptions env (args bootstrap) (type bootstrap) (comments bootstrap)
           = Inr (renderedOptions, imps)"
    and "CHR ''.'' \<notin> set (fqn bootstrap)"
    and "content =
           foldr (\<lambda>line text. line @ [CHR 0x0A] @ text)
             (asEsmImports env (imports_add env (Some (fqn bootstrap)) None imps))
             (''const project = new ('' @ renderedOptions @ '');'' @ [CHR 0x0A]
                @ ''project.synth();'')"
  shows "generateProjenrc env this h =
        (Inr (),
         h\<lparr>files := (files h)(p \<mapsto> content),
           trace := trace h @ [ExistsSync p, OutputFileSync p content,
                      LoggerInfo (''Project definition file was created at '' @ p)]\<rparr>)
    \<and> fst (generateProjenrc env this h) = Inr ()
    \<and> files (snd (generateProjenrc env this h)) p = Some content
    \<and> content \<noteq> []"
proof -
  have sp: "split CHR ''.'' (fqn bootstrap) = [fqn bootstrap]"
    using assms(5) by (rule split_no_separator)
  have "generateProjenrc env this h =
        (Inr (),
         h\<lparr>files := (files h)(p \<mapsto> content),
           trace := trace h @ [ExistsSync p, OutputFileSync p content,
                      LoggerInfo (''Project definition file was created at '' @ p)]\<rparr>)"
    using assms(1-4) sp
    by (rule generateProjenrc_writes)
      (simp add: assms(6) index_def slice_def join_lines_then_two newline_def)
  moreover have "content \<noteq> []"
    unfolding assms(6)
    by (cases "asEsmImports env (imports_add env (Some (fqn bootstrap)) None imps)") simp_all
  ultimately show ?thesis
    by simp
qed

theorem generateProjenrc_single_segment_witness:
  \<open>CHR ''.'' \<notin> set ''pkg''
   \<and> imports_add example_env (Some ''pkg'') None [] = [(Some ''pkg'', None)]
   \<and> generateProjenrc example_env (example_projenrc ''pkg'' (Some ''{}'')) empty_host =
      (Inr (),
       \<lparr>files = [''/work/.projenrc.ts'' \<mapsto>
            ''import {  } from "pkg";'' @ [CHR 0x0A] @ ''const project = new ({});''
              @ [CHR 0x0A] @ ''project.synth();''],
        trace = [ExistsSync ''/work/.projenrc.ts'',
          OutputFileSync ''/work/.projenrc.ts''
            (''import {  } from "pkg";'' @ [CHR 0x0A] @ ''const project = new ({});''
               @ [CHR 0x0A] @ ''project.synth();''),
          LoggerInfo ''Project definition file was created at /work/.projenrc.ts'']\<rparr>)\<close>
  using generateProjenrc_single_segment
    [where env = example_env and this = "example_projenrc ''pkg'' (Some ''{}'')"
       and p = "''/work/.projenrc.ts''" and h = empty_host
       and bootstrap = "\<lparr>fqn = ''pkg'', args = Some ''{}'', type = (), comments = ()\<rparr>"
       and renderedOptions = "''{}''" and imps = "[]", OF _ _ _ _ _ refl]
  by (simp add: example_env_def example_projenrc_def empty_host_def module_imports_add_def
      module_imports_asEsmImports_def printed_def)

end
